theory Spec2Isabelle
  imports Main
begin

section \<open>The command data source of internal/provider/data\_source.go\<close>

text \<open>
  The repository has one function with logic in it, \<open>testDataSource.Read\<close>. It decodes a
  configuration, validates the command, looks the first word of the command up on the
  executable search path, runs \<open>/bin/sh -c command\<close> and either writes the captured
  output into the response state or appends an error diagnostic.

  Everything \<open>Read\<close> calls outside the repository is a parameter of the model: the decoded
  configuration and the diagnostics of decoding come with the request, and the operating
  system (\<open>exec.LookPath\<close>, \<open>cmd.Run\<close> under the call's context) is a record of
  functions. The calls \<open>Read\<close> makes on the operating system and on the logger are returned
  as a list of events, in the order the source makes them.
\<close>

subsection \<open>Framework values\<close>

text \<open>
  \<open>types.String\<close> is null, unknown or a known string. \<open>ValueString\<close> returns the empty
  string for the first two. Strings are lists of code points below 256.
\<close>

datatype tf_string = Null | Unknown | Value string

fun ValueString :: "tf_string \<Rightarrow> string" where
  "ValueString (Value s) = s"
| "ValueString Null = []"
| "ValueString Unknown = []"

record testDataSourceModel =
  Command :: tf_string
  WorkingDir :: tf_string
  Output :: tf_string
  Error :: tf_string
  ID :: tf_string

datatype severity = SeverityError | SeverityWarning

record diagnostic =
  Severity :: severity
  AttributePath :: "string option"
  Summary :: string
  Detail :: string

text \<open>\<open>Diagnostics.HasError\<close>: some diagnostic has error severity.\<close>

definition HasError :: "diagnostic list \<Rightarrow> bool" where
  "HasError ds = list_ex (\<lambda>d. Severity d = SeverityError) ds"

text \<open>\<open>Diagnostics.Append\<close> skips a diagnostic that the list already holds.\<close>

fun Diagnostics_Append :: "diagnostic list \<Rightarrow> diagnostic list \<Rightarrow> diagnostic list" where
  "Diagnostics_Append ds [] = ds"
| "Diagnostics_Append ds (d # rest) =
     Diagnostics_Append (if List.member ds d then ds else ds @ [d]) rest"

text \<open>
  \<open>Diagnostics.AddAttributeError(path.Root(name), summary, detail)\<close> appends
  \<open>NewAttributeErrorDiagnostic(path.Root(name), summary, detail)\<close>.
\<close>

definition NewAttributeErrorDiagnostic :: "string \<Rightarrow> string \<Rightarrow> string \<Rightarrow> diagnostic" where
  "NewAttributeErrorDiagnostic name summary detail =
     \<lparr>Severity = SeverityError, AttributePath = Some name,
      Summary = summary, Detail = detail\<rparr>"

definition AddAttributeError ::
  "diagnostic list \<Rightarrow> string \<Rightarrow> string \<Rightarrow> string \<Rightarrow> diagnostic list" where
  "AddAttributeError ds name summary detail =
     Diagnostics_Append ds [NewAttributeErrorDiagnostic name summary detail]"

text \<open>
  The request: what \<open>req.Config.Get(ctx, &config)\<close> returns (its diagnostics) and writes
  (the decoded model). The response: the diagnostics and the state, \<open>None\<close> while no state
  has been set.
\<close>

record ReadRequest =
  ConfigDiags :: "diagnostic list"
  Config :: testDataSourceModel

record ReadResponse =
  Diagnostics :: "diagnostic list"
  State :: "testDataSourceModel option"

subsection \<open>strings.Fields\<close>

text \<open>
  \<open>unicode.IsSpace\<close> on the code points below 256: tab, line feed, vertical tab, form
  feed, carriage return, space, NEL (0x85) and NBSP (0xA0).
\<close>

definition isSpace :: "char \<Rightarrow> bool" where
  "isSpace c = List.member
     [CHR 0x09, CHR 0x0A, CHR 0x0B, CHR 0x0C, CHR 0x0D, CHR 0x20, CHR 0x85, CHR 0xA0] c"

text \<open>
  \<open>strings.Fields\<close> splits a string around each run of white space and returns the
  non-empty pieces. \<open>Fields_from cur s\<close> scans \<open>s\<close> with the characters of the field being
  read in \<open>cur\<close>, last one first.
\<close>

fun Fields_from :: "string \<Rightarrow> string \<Rightarrow> string list" where
  "Fields_from cur [] = (if cur = [] then [] else [rev cur])"
| "Fields_from cur (c # cs) =
     (if isSpace c
      then (if cur = [] then Fields_from [] cs else rev cur # Fields_from [] cs)
      else Fields_from (c # cur) cs)"

definition Fields :: "string \<Rightarrow> string list" where
  "Fields s = Fields_from [] s"

subsection \<open>The operating system\<close>

text \<open>
  \<open>exec.Cmd\<close> as \<open>exec.CommandContext\<close> builds it: the program, the argument vector
  (the program first) and the working directory, where the empty string means the
  directory of the calling process.
\<close>

record Cmd =
  Path :: string
  Args :: "string list"
  Dir :: string

definition CommandContext :: "string \<Rightarrow> string list \<Rightarrow> Cmd" where
  "CommandContext name arg = \<lparr>Path = name, Args = name # arg, Dir = []\<rparr>"

text \<open>
  How a run of a command under the call's context ends: the child exits with a status,
  the child could not be started (the text is the error's), waiting for it failed for
  another reason (a signal, a failed copy of a stream), or the context was done before
  the child exited and the child was killed.
\<close>

datatype proc_outcome =
  Exited nat
| StartFailed string
| WaitFailed string
| ContextDone string

record proc_result =
  Stdout :: string
  Stderr :: string
  Outcome :: proc_outcome

text \<open>Decimal digits of a natural number, for the text of an exit status.\<close>

definition digit :: "nat \<Rightarrow> char" where
  "digit d =
     (if d = 0 then CHR ''0'' else if d = 1 then CHR ''1'' else if d = 2 then CHR ''2''
      else if d = 3 then CHR ''3'' else if d = 4 then CHR ''4'' else if d = 5 then CHR ''5''
      else if d = 6 then CHR ''6'' else if d = 7 then CHR ''7'' else if d = 8 then CHR ''8''
      else CHR ''9'')"

fun itoa :: "nat \<Rightarrow> string" where
  "itoa n = (if n < 10 then [digit n] else itoa (n div 10) @ [digit (n mod 10)])"

declare itoa.simps [simp del]

text \<open>
  The \<open>error\<close> that \<open>cmd.Run\<close> returns, as the text of its \<open>Error()\<close>; \<open>None\<close> is
  \<open>nil\<close>. \<open>Run\<close> returns \<open>nil\<close> exactly when the child started, was not interrupted and
  exited with status zero.
\<close>

fun Run_error :: "proc_outcome \<Rightarrow> string option" where
  "Run_error (Exited n) = (if n = 0 then None else Some (''exit status '' @ itoa n))"
| "Run_error (StartFailed msg) = Some msg"
| "Run_error (WaitFailed msg) = Some msg"
| "Run_error (ContextDone msg) = Some msg"

text \<open>
  \<open>LookPath\<close> returns the resolved path, or \<open>None\<close> when \<open>exec.LookPath\<close> returns an
  error. \<open>Run\<close> runs a command to its end with both streams captured.
\<close>

record os_env =
  LookPath :: "string \<Rightarrow> string option"
  Run :: "Cmd \<Rightarrow> proc_result"

datatype event =
  LookPathCalled string
| TraceLogged string "(string \<times> string) list"
| ProcessRun Cmd

datatype panic = IndexOutOfRange nat nat

subsection \<open>Read\<close>

definition missing_command_detail :: string where
  "missing_command_detail =
     ''The command cannot be empty. Please specify a valid shell command.''"

definition not_found_detail :: "string \<Rightarrow> string" where
  "not_found_detail command =
     ''The command '' @ [CHR 0x27] @ command @ [CHR 0x27]
       @ '' was not found. Ensure it'' @ [CHR 0x27] @ ''s installed and accessible.''"

definition failed_detail :: "string \<Rightarrow> string \<Rightarrow> string \<Rightarrow> string" where
  "failed_detail command err errorStr =
     ''Command execution failed.'' @ [CHR 0x0A, CHR 0x0A]
       @ ''Command: '' @ command @ [CHR 0x0A]
       @ ''Error: '' @ err @ [CHR 0x0A]
       @ ''Stderr: '' @ errorStr"

text \<open>
  \<open>resp.State.Set(ctx, &config)\<close> stores the model and returns no diagnostic: the model
  has exactly the five string attributes of the schema.
\<close>

definition State_Set :: "testDataSourceModel \<Rightarrow> diagnostic list \<times> testDataSourceModel option" where
  "State_Set config = ([], Some config)"

text \<open>
  \<open>Read\<close>, statement by statement. The result is the list of events and either the
  panic that ended the call or the response as the call left it.
\<close>

definition Read ::
  "os_env \<Rightarrow> ReadRequest \<Rightarrow> ReadResponse \<Rightarrow> event list \<times> (panic + ReadResponse)" where
  "Read os req resp =
     (let config = Config req;
          diags = ConfigDiags req;
          resp = resp\<lparr>Diagnostics := Diagnostics_Append (Diagnostics resp) diags\<rparr>
      in if HasError (Diagnostics resp) then ([], Inr resp)
      else
        let command = ValueString (Command config);
            workingDir = ValueString (WorkingDir config)
        in if command = [] then
             ([], Inr (resp\<lparr>Diagnostics :=
                 AddAttributeError (Diagnostics resp) ''command''
                   ''Missing Command'' missing_command_detail\<rparr>))
        else
          (case Fields command of
             [] \<Rightarrow> ([], Inl (IndexOutOfRange 0 0))
           | name # _ \<Rightarrow>
             (case LookPath os name of
                None \<Rightarrow>
                  ([LookPathCalled name],
                   Inr (resp\<lparr>Diagnostics :=
                     AddAttributeError (Diagnostics resp) ''command''
                       ''Command Not Found'' (not_found_detail command)\<rparr>))
              | Some _ \<Rightarrow>
                  let cmd = CommandContext ''/bin/sh'' [''-c'', command];
                      cmd = (if workingDir \<noteq> [] then cmd\<lparr>Dir := workingDir\<rparr> else cmd);
                      res = Run os cmd;
                      err = Run_error (Outcome res);
                      outputStr = Stdout res;
                      errorStr = Stderr res;
                      events =
                        [LookPathCalled name,
                         TraceLogged ''Executing command'' [(''command'', command)],
                         ProcessRun cmd,
                         TraceLogged ''Executed command''
                           [(''command'', command), (''output'', outputStr),
                            (''error'', errorStr)]]
                  in (case err of
                        Some e \<Rightarrow>
                          (events,
                           Inr (resp\<lparr>Diagnostics :=
                             AddAttributeError (Diagnostics resp) ''command''
                               ''Command Execution Failed''
                               (failed_detail command e errorStr)\<rparr>))
                      | None \<Rightarrow>
                          let config = config\<lparr>Output := Value outputStr\<rparr>;
                              config = config\<lparr>Error := Value errorStr\<rparr>;
                              config = config\<lparr>ID := Value ''-''\<rparr>;
                              (diags, st) = State_Set config
                          in (events,
                              Inr (resp\<lparr>State := st,
                                Diagnostics := Diagnostics_Append (Diagnostics resp) diags\<rparr>))))))"

text \<open>The response a call starts from: no diagnostic, no state.\<close>

definition empty_response :: ReadResponse where
  "empty_response = \<lparr>Diagnostics = [], State = None\<rparr>"

definition request_of :: "tf_string \<Rightarrow> tf_string \<Rightarrow> ReadRequest" where
  "request_of command working_dir =
     \<lparr>ConfigDiags = [],
      Config = \<lparr>Command = command, WorkingDir = working_dir,
                Output = Null, Error = Null, ID = Null\<rparr>\<rparr>"

subsection \<open>Vocabulary of the statements\<close>

text \<open>The response once the diagnostics of decoding are appended (line 66 of the source).\<close>

definition after_decode :: "ReadRequest \<Rightarrow> ReadResponse \<Rightarrow> ReadResponse" where
  "after_decode req resp =
     resp\<lparr>Diagnostics := Diagnostics_Append (Diagnostics resp) (ConfigDiags req)\<rparr>"

text \<open>The response with one more error on the attribute \<open>command\<close>.\<close>

definition add_error :: "ReadResponse \<Rightarrow> string \<Rightarrow> string \<Rightarrow> ReadResponse" where
  "add_error resp summary detail =
     resp\<lparr>Diagnostics := AddAttributeError (Diagnostics resp) ''command'' summary detail\<rparr>"

text \<open>The shell command for a command text and a working directory.\<close>

definition sh_cmd :: "string \<Rightarrow> string \<Rightarrow> Cmd" where
  "sh_cmd command dir =
     \<lparr>Path = ''/bin/sh'', Args = [''/bin/sh'', ''-c'', command], Dir = dir\<rparr>"

text \<open>The events of a call that reaches \<open>cmd.Run\<close>.\<close>

definition run_events :: "string \<Rightarrow> string \<Rightarrow> Cmd \<Rightarrow> proc_result \<Rightarrow> event list" where
  "run_events name command cmd res =
     [LookPathCalled name,
      TraceLogged ''Executing command'' [(''command'', command)],
      ProcessRun cmd,
      TraceLogged ''Executed command''
        [(''command'', command), (''output'', Stdout res), (''error'', Stderr res)]]"

text \<open>The commands run, read off the events.\<close>

fun spawned :: "event list \<Rightarrow> Cmd list" where
  "spawned [] = []"
| "spawned (ProcessRun c # es) = c # spawned es"
| "spawned (LookPathCalled n # es) = spawned es"
| "spawned (TraceLogged m kv # es) = spawned es"

text \<open>The summaries of the diagnostics a call leaves, none for a call that panicked.\<close>

definition summaries :: "event list \<times> (panic + ReadResponse) \<Rightarrow> string list" where
  "summaries x = (case snd x of Inl p \<Rightarrow> [] | Inr r \<Rightarrow> map Summary (Diagnostics r))"

text \<open>A result with the \<open>working_dir\<close> attribute of its state blanked.\<close>

definition forget_dir :: "panic + ReadResponse \<Rightarrow> panic + ReadResponse" where
  "forget_dir x =
     (case x of
        Inl p \<Rightarrow> Inl p
      | Inr r \<Rightarrow> Inr (r\<lparr>State := map_option (\<lambda>s. s\<lparr>WorkingDir := Null\<rparr>) (State r)\<rparr>))"

subsection \<open>A sample operating system\<close>

text \<open>
  A machine with \<open>echo\<close>, \<open>false\<close>, \<open>sleep\<close> and \<open>ls\<close> on its search path and no
  directory \<open>/no/such/dir\<close>, under a context that is cancelled while \<open>sleep 10\<close> runs.
\<close>

definition demo_run :: "Cmd \<Rightarrow> proc_result" where
  "demo_run cmd =
     (if Dir cmd = ''/no/such/dir'' then
        \<lparr>Stdout = [], Stderr = [],
         Outcome = StartFailed ''chdir /no/such/dir: no such file or directory''\<rparr>
      else if Args cmd = [''/bin/sh'', ''-c'', ''echo hello''] then
        \<lparr>Stdout = ''hello'' @ [CHR 0x0A], Stderr = [], Outcome = Exited 0\<rparr>
      else if Args cmd = [''/bin/sh'', ''-c'', ''echo oops >&2''] then
        \<lparr>Stdout = [], Stderr = ''oops'' @ [CHR 0x0A], Outcome = Exited 0\<rparr>
      else if Args cmd = [''/bin/sh'', ''-c'', ''ls /missing''] then
        \<lparr>Stdout = [], Stderr = ''ls: /missing: No such file or directory'' @ [CHR 0x0A],
         Outcome = Exited 2\<rparr>
      else if Args cmd = [''/bin/sh'', ''-c'', ''false''] then
        \<lparr>Stdout = [], Stderr = [], Outcome = Exited 1\<rparr>
      else if Args cmd = [''/bin/sh'', ''-c'', ''sleep 10''] then
        \<lparr>Stdout = [], Stderr = [], Outcome = ContextDone ''signal: killed''\<rparr>
      else \<lparr>Stdout = [], Stderr = [], Outcome = Exited 0\<rparr>)"

definition demo_os :: os_env where
  "demo_os =
     \<lparr>LookPath = (\<lambda>name. if List.member [''echo'', ''false'', ''sleep'', ''ls''] name
                          then Some (''/bin/'' @ name) else None),
      Run = demo_run\<rparr>"

section \<open>Properties\<close>

subsection \<open>Library facts\<close>

lemma Fields_from_Nil_iff: "Fields_from cur s = [] \<longleftrightarrow> cur = [] \<and> (\<forall>c\<in>set s. isSpace c)"
  by (induction s arbitrary: cur) auto

lemma Fields_Nil_iff: "Fields s = [] \<longleftrightarrow> (\<forall>c\<in>set s. isSpace c)"
  by (simp add: Fields_def Fields_from_Nil_iff)

lemma Fields_from_first:
  "Fields_from cur s = w # ws \<Longrightarrow>
   w = rev cur @ takeWhile (\<lambda>c. \<not> isSpace c) (if cur = [] then dropWhile isSpace s else s)"
proof (induction s arbitrary: cur)
  case Nil
  then show ?case by (simp split: if_splits)
next
  case (Cons c cs)
  show ?case
    using Cons.prems Cons.IH [of "[]"] Cons.IH [of "c # cur"]
    by (auto split: if_splits)
qed

lemma Fields_first:
  "Fields s = w # ws \<Longrightarrow> w = takeWhile (\<lambda>c. \<not> isSpace c) (dropWhile isSpace s)"
  using Fields_from_first [of "[]" s w ws] by (simp add: Fields_def)

lemma AddAttributeError_fresh:
  "\<not> HasError ds \<Longrightarrow>
   AddAttributeError ds n s d = ds @ [NewAttributeErrorDiagnostic n s d]"
  by (auto simp add: AddAttributeError_def HasError_def list_ex_iff
        NewAttributeErrorDiagnostic_def)

lemma add_error_fresh:
  "\<not> HasError (Diagnostics r) \<Longrightarrow>
   add_error r s d = r\<lparr>Diagnostics := Diagnostics r @ [NewAttributeErrorDiagnostic ''command'' s d]\<rparr>"
  by (simp add: add_error_def AddAttributeError_fresh)

lemma HasError_AddAttributeError: "HasError (AddAttributeError ds n s d)"
proof -
  have "Severity (NewAttributeErrorDiagnostic n s d) = SeverityError"
    by (simp add: NewAttributeErrorDiagnostic_def)
  moreover have "NewAttributeErrorDiagnostic n s d \<in> set (AddAttributeError ds n s d)"
    by (simp add: AddAttributeError_def)
  ultimately show ?thesis
    unfolding HasError_def list_ex_iff by blast
qed

lemma HasError_add_error: "HasError (Diagnostics (add_error r s d))"
  by (simp add: add_error_def HasError_AddAttributeError)

lemma State_add_error: "State (add_error r s d) = State r"
  by (simp add: add_error_def)

lemma State_after_decode: "State (after_decode req resp) = State resp"
  by (simp add: after_decode_def)

subsection \<open>The paths of Read\<close>

lemma Read_decode_failed:
  "HasError (Diagnostics (after_decode req resp)) \<Longrightarrow>
   Read os req resp = ([], Inr (after_decode req resp))"
  by (simp add: Read_def after_decode_def Let_def)

lemma Read_missing:
  "\<not> HasError (Diagnostics (after_decode req resp)) \<Longrightarrow>
   ValueString (Command (Config req)) = [] \<Longrightarrow>
   Read os req resp =
     ([], Inr (add_error (after_decode req resp) ''Missing Command'' missing_command_detail))"
  by (simp add: Read_def after_decode_def add_error_def Let_def)

lemma Read_panic:
  "\<not> HasError (Diagnostics (after_decode req resp)) \<Longrightarrow>
   ValueString (Command (Config req)) \<noteq> [] \<Longrightarrow>
   Fields (ValueString (Command (Config req))) = [] \<Longrightarrow>
   Read os req resp = ([], Inl (IndexOutOfRange 0 0))"
  by (simp add: Read_def after_decode_def Let_def)

lemma Fields_Cons_nonempty: "Fields s = w # ws \<Longrightarrow> s \<noteq> []"
  by (auto simp add: Fields_def)

lemma Read_not_found:
  "\<not> HasError (Diagnostics (after_decode req resp)) \<Longrightarrow>
   ValueString (Command (Config req)) = command \<Longrightarrow>
   Fields command = name # rest \<Longrightarrow>
   LookPath os name = None \<Longrightarrow>
   Read os req resp =
     ([LookPathCalled name],
      Inr (add_error (after_decode req resp) ''Command Not Found'' (not_found_detail command)))"
  by (auto simp add: Read_def after_decode_def add_error_def Let_def Fields_def)

lemma Read_run_failed:
  "\<not> HasError (Diagnostics (after_decode req resp)) \<Longrightarrow>
   ValueString (Command (Config req)) = command \<Longrightarrow>
   Fields command = name # rest \<Longrightarrow>
   LookPath os name = Some p \<Longrightarrow>
   Run os (sh_cmd command (ValueString (WorkingDir (Config req)))) = res \<Longrightarrow>
   Run_error (Outcome res) = Some e \<Longrightarrow>
   Read os req resp =
     (run_events name command (sh_cmd command (ValueString (WorkingDir (Config req)))) res,
      Inr (add_error (after_decode req resp) ''Command Execution Failed''
             (failed_detail command e (Stderr res))))"
  by (auto simp add: Read_def after_decode_def add_error_def Let_def Fields_def
        sh_cmd_def CommandContext_def run_events_def)

lemma Read_ok:
  "\<not> HasError (Diagnostics (after_decode req resp)) \<Longrightarrow>
   ValueString (Command (Config req)) = command \<Longrightarrow>
   Fields command = name # rest \<Longrightarrow>
   LookPath os name = Some p \<Longrightarrow>
   Run os (sh_cmd command (ValueString (WorkingDir (Config req)))) = res \<Longrightarrow>
   Run_error (Outcome res) = None \<Longrightarrow>
   Read os req resp =
     (run_events name command (sh_cmd command (ValueString (WorkingDir (Config req)))) res,
      Inr ((after_decode req resp)\<lparr>State :=
             Some ((Config req)\<lparr>Output := Value (Stdout res), Error := Value (Stderr res),
                                ID := Value ''-''\<rparr>)\<rparr>))"
  by (auto simp add: Read_def after_decode_def add_error_def Let_def Fields_def
        sh_cmd_def CommandContext_def run_events_def State_Set_def)

lemma Run_error_None_iff: "Run_error out = None \<longleftrightarrow> out = Exited 0"
  by (cases out) auto

text \<open>Every call takes one of six paths.\<close>

lemma Read_cases [case_names decode_failed missing panicked not_found run_failed ok]:
  assumes "HasError (Diagnostics (after_decode req resp)) \<Longrightarrow>
           Read os req resp = ([], Inr (after_decode req resp)) \<Longrightarrow> P"
    and "\<not> HasError (Diagnostics (after_decode req resp)) \<Longrightarrow>
         ValueString (Command (Config req)) = [] \<Longrightarrow>
         Read os req resp =
           ([], Inr (add_error (after_decode req resp) ''Missing Command''
                  missing_command_detail)) \<Longrightarrow> P"
    and "\<not> HasError (Diagnostics (after_decode req resp)) \<Longrightarrow>
         ValueString (Command (Config req)) \<noteq> [] \<Longrightarrow>
         Fields (ValueString (Command (Config req))) = [] \<Longrightarrow>
         Read os req resp = ([], Inl (IndexOutOfRange 0 0)) \<Longrightarrow> P"
    and "\<And>name rest.
         \<not> HasError (Diagnostics (after_decode req resp)) \<Longrightarrow>
         Fields (ValueString (Command (Config req))) = name # rest \<Longrightarrow>
         LookPath os name = None \<Longrightarrow>
         Read os req resp =
           ([LookPathCalled name],
            Inr (add_error (after_decode req resp) ''Command Not Found''
                   (not_found_detail (ValueString (Command (Config req)))))) \<Longrightarrow> P"
    and "\<And>name rest p e.
         \<not> HasError (Diagnostics (after_decode req resp)) \<Longrightarrow>
         Fields (ValueString (Command (Config req))) = name # rest \<Longrightarrow>
         LookPath os name = Some p \<Longrightarrow>
         Run_error (Outcome (Run os (sh_cmd (ValueString (Command (Config req)))
           (ValueString (WorkingDir (Config req)))))) = Some e \<Longrightarrow>
         Read os req resp =
           (run_events name (ValueString (Command (Config req)))
              (sh_cmd (ValueString (Command (Config req)))
                 (ValueString (WorkingDir (Config req))))
              (Run os (sh_cmd (ValueString (Command (Config req)))
                 (ValueString (WorkingDir (Config req))))),
            Inr (add_error (after_decode req resp) ''Command Execution Failed''
                   (failed_detail (ValueString (Command (Config req))) e
                      (Stderr (Run os (sh_cmd (ValueString (Command (Config req)))
                         (ValueString (WorkingDir (Config req))))))))) \<Longrightarrow> P"
    and "\<And>name rest p.
         \<not> HasError (Diagnostics (after_decode req resp)) \<Longrightarrow>
         Fields (ValueString (Command (Config req))) = name # rest \<Longrightarrow>
         LookPath os name = Some p \<Longrightarrow>
         Outcome (Run os (sh_cmd (ValueString (Command (Config req)))
           (ValueString (WorkingDir (Config req))))) = Exited 0 \<Longrightarrow>
         Read os req resp =
           (run_events name (ValueString (Command (Config req)))
              (sh_cmd (ValueString (Command (Config req)))
                 (ValueString (WorkingDir (Config req))))
              (Run os (sh_cmd (ValueString (Command (Config req)))
                 (ValueString (WorkingDir (Config req))))),
            Inr ((after_decode req resp)\<lparr>State :=
              Some ((Config req)\<lparr>
                Output := Value (Stdout (Run os (sh_cmd (ValueString (Command (Config req)))
                   (ValueString (WorkingDir (Config req)))))),
                Error := Value (Stderr (Run os (sh_cmd (ValueString (Command (Config req)))
                   (ValueString (WorkingDir (Config req)))))),
                ID := Value ''-''\<rparr>)\<rparr>)) \<Longrightarrow> P"
  shows P
proof (cases "HasError (Diagnostics (after_decode req resp))")
  case True
  then show ?thesis using assms(1) Read_decode_failed by blast
next
  case ok: False
  show ?thesis
  proof (cases "ValueString (Command (Config req)) = []")
    case True
    then show ?thesis using assms(2) ok Read_missing by blast
  next
    case nonempty: False
    show ?thesis
    proof (cases "Fields (ValueString (Command (Config req)))")
      case Nil
      then show ?thesis using assms(3) ok nonempty Read_panic by blast
    next
      case (Cons name rest)
      show ?thesis
      proof (cases "LookPath os name")
        case None
        then show ?thesis using assms(4) ok Cons Read_not_found by blast
      next
        case (Some p)
        show ?thesis
        proof (cases "Run_error (Outcome (Run os (sh_cmd (ValueString (Command (Config req)))
           (ValueString (WorkingDir (Config req))))))")
          case None
          then show ?thesis
            using assms(6) [OF ok Cons Some] Read_ok [OF ok refl Cons Some refl None]
            by (simp add: Run_error_None_iff)
        next
          case (Some e)
          then show ?thesis
            using assms(5) [OF ok Cons \<open>LookPath os name = Some p\<close> Some]
              Read_run_failed [OF ok refl Cons \<open>LookPath os name = Some p\<close> refl Some]
            by simp
        qed
      qed
    qed
  qed
qed

lemma after_decode_update:
  "(after_decode req resp)\<lparr>Diagnostics := ds\<rparr> = resp\<lparr>Diagnostics := ds\<rparr>"
  by (simp add: after_decode_def)

lemma after_decode_State_update:
  "(after_decode req resp)\<lparr>State := st\<rparr>
     = resp\<lparr>Diagnostics := Diagnostics (after_decode req resp), State := st\<rparr>"
  by (simp add: after_decode_def)

lemma failed_detail_text:
  "failed_detail command e errorStr =
     ''Command execution failed.'' @ [CHR 0x0A, CHR 0x0A] @ ''Command: '' @ command
       @ [CHR 0x0A] @ ''Error: '' @ e @ [CHR 0x0A] @ ''Stderr: '' @ errorStr"
  by (simp add: failed_detail_def)

lemma Read_empty_string:
  "\<not> HasError (Diagnostics (after_decode req resp)) \<Longrightarrow>
   ValueString (Command (Config req)) = [] \<Longrightarrow>
   Read os req resp =
     ([], Inr (resp\<lparr>Diagnostics := Diagnostics (after_decode req resp) @
        [NewAttributeErrorDiagnostic ''command'' ''Missing Command''
           ''The command cannot be empty. Please specify a valid shell command.'']\<rparr>))"
  by (simp add: Read_missing add_error_fresh after_decode_update missing_command_detail_def)

lemma Read_whitespace_only:
  "\<not> HasError (Diagnostics (after_decode req resp)) \<Longrightarrow>
   ValueString (Command (Config req)) \<noteq> [] \<Longrightarrow>
   \<forall>c\<in>set (ValueString (Command (Config req))). isSpace c \<Longrightarrow>
   Read os req resp = ([], Inl (IndexOutOfRange 0 0))"
  by (simp add: Read_panic Fields_Nil_iff)

lemmas demo_simps =
  demo_os_def demo_run_def request_of_def empty_response_def after_decode_def sh_cmd_def
  HasError_def Fields_def isSpace_def

subsection \<open>Empty and blank commands\<close>

text \<open>
  Claim C1: a command that is empty or only white space makes the call fail with the
  \<open>Missing Command\<close> diagnostic before any lookup and before any process is run.
  The source tests \<open>command == ""\<close> only. For the empty string the call does fail so
  (\<open>Read_empty_string\<close>). For a command of white space alone \<open>strings.Fields\<close>
  returns no field and the index \<open>[0]\<close> panics (\<open>Read_whitespace_only\<close>): the call
  ends without any diagnostic. The theorem runs the call on the command of one space.
\<close>

theorem C1_whitespace_command_panics:
  "Read demo_os (request_of (Value '' '') Null) empty_response
     = ([], Inl (IndexOutOfRange 0 0))"
  by (simp add: Read_def Let_def demo_simps)

subsection \<open>Cancellation\<close>

text \<open>
  Claim C2, as stated: a call whose context is done before the child exits fails with an
  error of a category of its own. On the sample machine the cancelled \<open>sleep 10\<close> and
  the failing \<open>false\<close> leave the same single summary, \<open>Command Execution Failed\<close>:
  the source has one branch for every error of \<open>cmd.Run\<close>.
\<close>

theorem C2_cancellation_not_distinct:
  "Outcome (Run demo_os (sh_cmd ''sleep 10'' [])) = ContextDone ''signal: killed''
   \<and> Outcome (Run demo_os (sh_cmd ''false'' [])) = Exited 1
   \<and> summaries (Read demo_os (request_of (Value ''sleep 10'') Null) empty_response)
       = [''Command Execution Failed'']
   \<and> summaries (Read demo_os (request_of (Value ''false'') Null) empty_response)
       = [''Command Execution Failed'']"
  by (simp add: Read_def Let_def demo_simps summaries_def CommandContext_def
        AddAttributeError_def NewAttributeErrorDiagnostic_def)

text \<open>
  Claim C2, amended: when the context is done before the child of a validated and resolved
  command exits, the call appends the one error \<open>Command Execution Failed\<close>, whose detail
  holds the command, the text of the error of \<open>cmd.Run\<close> and the captured standard error,
  and leaves the state as it was: it never returns a result.
\<close>

theorem C2_cancellation_is_execution_failure:
  assumes "\<not> HasError (Diagnostics (after_decode req resp))"
    and "ValueString (Command (Config req)) = command"
    and "Fields command = name # rest"
    and "LookPath os name = Some p"
    and "Run os (sh_cmd command (ValueString (WorkingDir (Config req)))) = res"
    and "Outcome res = ContextDone msg"
  shows "snd (Read os req resp) =
     Inr (resp\<lparr>Diagnostics := Diagnostics (after_decode req resp) @
       [NewAttributeErrorDiagnostic ''command'' ''Command Execution Failed''
          (''Command execution failed.'' @ [CHR 0x0A, CHR 0x0A] @ ''Command: '' @ command
             @ [CHR 0x0A] @ ''Error: '' @ msg @ [CHR 0x0A] @ ''Stderr: '' @ Stderr res)]\<rparr>)"
proof -
  have "Run_error (Outcome res) = Some msg"
    using assms(6) by simp
  from Read_run_failed [OF assms(1-5) this] show ?thesis
    by (simp add: add_error_fresh [OF assms(1)] after_decode_update failed_detail_text)
qed

theorem C2_cancellation_is_execution_failure_witness:
  "\<not> HasError (Diagnostics (after_decode (request_of (Value ''sleep 10'') Null) empty_response))
   \<and> Fields ''sleep 10'' = [''sleep'', ''10'']
   \<and> LookPath demo_os ''sleep'' = Some ''/bin/sleep''
   \<and> Run demo_os (sh_cmd ''sleep 10'' []) =
        \<lparr>Stdout = [], Stderr = [], Outcome = ContextDone ''signal: killed''\<rparr>
   \<and> snd (Read demo_os (request_of (Value ''sleep 10'') Null) empty_response) =
       Inr \<lparr>Diagnostics =
         [NewAttributeErrorDiagnostic ''command'' ''Command Execution Failed''
            (''Command execution failed.'' @ [CHR 0x0A, CHR 0x0A] @ ''Command: sleep 10''
               @ [CHR 0x0A] @ ''Error: signal: killed'' @ [CHR 0x0A] @ ''Stderr: '')],
         State = None\<rparr>"
proof -
  let ?req = "request_of (Value ''sleep 10'') Null"
  let ?res = "\<lparr>Stdout = [], Stderr = [], Outcome = ContextDone ''signal: killed''\<rparr>"
  have 1: "\<not> HasError (Diagnostics (after_decode ?req empty_response))"
    by (simp add: demo_simps)
  have 2: "ValueString (Command (Config ?req)) = ''sleep 10''"
    by (simp add: request_of_def)
  have 3: "Fields ''sleep 10'' = ''sleep'' # [''10'']"
    by (simp add: Fields_def isSpace_def)
  have 4: "LookPath demo_os ''sleep'' = Some ''/bin/sleep''"
    by (simp add: demo_os_def)
  have 5: "Run demo_os (sh_cmd ''sleep 10'' (ValueString (WorkingDir (Config ?req)))) = ?res"
    by (simp add: demo_simps)
  have 6: "Outcome ?res = ContextDone ''signal: killed''"
    by simp
  show ?thesis
    using 1 3 4 5 C2_cancellation_is_execution_failure [OF 1 2 3 4 5 6]
    by (simp add: request_of_def empty_response_def after_decode_def)
qed

subsection \<open>Success\<close>

text \<open>
  Claim C3: for a command that is not empty, whose first field resolves on the search path
  and whose child exits with status zero, the call returns a result: the state holds the
  whole captured standard output, the whole captured standard error and the identifier
  \<open>-\<close>. The witness is the scenario \<open>echo hello\<close> with no working directory.
\<close>

theorem C3_zero_exit_returns_result:
  assumes "\<not> HasError (Diagnostics (after_decode req resp))"
    and "ValueString (Command (Config req)) = command"
    and "Fields command = name # rest"
    and "LookPath os name = Some p"
    and "Run os (sh_cmd command (ValueString (WorkingDir (Config req)))) = res"
    and "Outcome res = Exited 0"
  shows "snd (Read os req resp) =
     Inr (resp\<lparr>Diagnostics := Diagnostics (after_decode req resp),
               State := Some ((Config req)\<lparr>Output := Value (Stdout res),
                                          Error := Value (Stderr res),
                                          ID := Value ''-''\<rparr>)\<rparr>)"
proof -
  have "Run_error (Outcome res) = None"
    using assms(6) by simp
  from Read_ok [OF assms(1-5) this] show ?thesis
    by (simp add: after_decode_State_update)
qed

theorem C3_zero_exit_returns_result_witness:
  "\<not> HasError (Diagnostics (after_decode (request_of (Value ''echo hello'') Null) empty_response))
   \<and> Fields ''echo hello'' = [''echo'', ''hello'']
   \<and> LookPath demo_os ''echo'' = Some ''/bin/echo''
   \<and> Run demo_os (sh_cmd ''echo hello'' []) =
        \<lparr>Stdout = ''hello'' @ [CHR 0x0A], Stderr = [], Outcome = Exited 0\<rparr>
   \<and> snd (Read demo_os (request_of (Value ''echo hello'') Null) empty_response) =
       Inr \<lparr>Diagnostics = [],
            State = Some \<lparr>Command = Value ''echo hello'', WorkingDir = Null,
                          Output = Value (''hello'' @ [CHR 0x0A]), Error = Value [],
                          ID = Value ''-''\<rparr>\<rparr>"
proof -
  let ?req = "request_of (Value ''echo hello'') Null"
  let ?res = "\<lparr>Stdout = ''hello'' @ [CHR 0x0A], Stderr = [], Outcome = Exited 0\<rparr>"
  have 1: "\<not> HasError (Diagnostics (after_decode ?req empty_response))"
    by (simp add: demo_simps)
  have 2: "ValueString (Command (Config ?req)) = ''echo hello''"
    by (simp add: request_of_def)
  have 3: "Fields ''echo hello'' = ''echo'' # [''hello'']"
    by (simp add: Fields_def isSpace_def)
  have 4: "LookPath demo_os ''echo'' = Some ''/bin/echo''"
    by (simp add: demo_os_def)
  have 5: "Run demo_os (sh_cmd ''echo hello'' (ValueString (WorkingDir (Config ?req)))) = ?res"
    by (simp add: demo_simps)
  have 6: "Outcome ?res = Exited 0"
    by simp
  show ?thesis
    using 1 3 4 5 C3_zero_exit_returns_result [OF 1 2 3 4 5 6]
    by (simp add: request_of_def empty_response_def after_decode_def)
qed

subsection \<open>Failing processes\<close>

text \<open>
  Claim C4: when the child exits with a status other than zero, or cannot be started (an
  invalid working directory is one such failure) or waited for, the call appends the error
  \<open>Command Execution Failed\<close>, whose detail holds the command, the text of the error and
  the whole captured standard error, and it sets no state, whatever the standard output.
\<close>

theorem C4_failing_process_reports_execution_failed:
  assumes "\<not> HasError (Diagnostics (after_decode req resp))"
    and "ValueString (Command (Config req)) = command"
    and "Fields command = name # rest"
    and "LookPath os name = Some p"
    and "Run os (sh_cmd command (ValueString (WorkingDir (Config req)))) = res"
    and "(\<exists>n. 0 < n \<and> Outcome res = Exited n \<and> e = ''exit status '' @ itoa n)
         \<or> Outcome res = StartFailed e \<or> Outcome res = WaitFailed e"
  shows "snd (Read os req resp) =
     Inr (resp\<lparr>Diagnostics := Diagnostics (after_decode req resp) @
       [NewAttributeErrorDiagnostic ''command'' ''Command Execution Failed''
          (''Command execution failed.'' @ [CHR 0x0A, CHR 0x0A] @ ''Command: '' @ command
             @ [CHR 0x0A] @ ''Error: '' @ e @ [CHR 0x0A] @ ''Stderr: '' @ Stderr res)]\<rparr>)"
proof -
  have "Run_error (Outcome res) = Some e"
    using assms(6) by auto
  from Read_run_failed [OF assms(1-5) this] show ?thesis
    by (simp add: add_error_fresh [OF assms(1)] after_decode_update failed_detail_text)
qed

theorem C4_failing_process_reports_execution_failed_witness:
  "Fields ''ls /missing'' = [''ls'', ''/missing'']
   \<and> LookPath demo_os ''ls'' = Some ''/bin/ls''
   \<and> Run demo_os (sh_cmd ''ls /missing'' []) =
        \<lparr>Stdout = [], Stderr = ''ls: /missing: No such file or directory'' @ [CHR 0x0A],
         Outcome = Exited 2\<rparr>
   \<and> snd (Read demo_os (request_of (Value ''ls /missing'') Null) empty_response) =
       Inr \<lparr>Diagnostics =
         [NewAttributeErrorDiagnostic ''command'' ''Command Execution Failed''
            (''Command execution failed.'' @ [CHR 0x0A, CHR 0x0A] @ ''Command: ls /missing''
               @ [CHR 0x0A] @ ''Error: exit status 2'' @ [CHR 0x0A]
               @ ''Stderr: ls: /missing: No such file or directory'' @ [CHR 0x0A])],
         State = None\<rparr>
   \<and> Run demo_os (sh_cmd ''echo hello'' ''/no/such/dir'') =
        \<lparr>Stdout = [], Stderr = [],
         Outcome = StartFailed ''chdir /no/such/dir: no such file or directory''\<rparr>
   \<and> snd (Read demo_os (request_of (Value ''echo hello'') (Value ''/no/such/dir''))
          empty_response) =
       Inr \<lparr>Diagnostics =
         [NewAttributeErrorDiagnostic ''command'' ''Command Execution Failed''
            (''Command execution failed.'' @ [CHR 0x0A, CHR 0x0A] @ ''Command: echo hello''
               @ [CHR 0x0A] @ ''Error: chdir /no/such/dir: no such file or directory''
               @ [CHR 0x0A] @ ''Stderr: '')],
         State = None\<rparr>"
proof -
  let ?req = "request_of (Value ''ls /missing'') Null"
  let ?res = "\<lparr>Stdout = [], Stderr = ''ls: /missing: No such file or directory'' @ [CHR 0x0A],
         Outcome = Exited 2\<rparr>"
  let ?req' = "request_of (Value ''echo hello'') (Value ''/no/such/dir'')"
  let ?res' = "\<lparr>Stdout = [], Stderr = [],
         Outcome = StartFailed ''chdir /no/such/dir: no such file or directory''\<rparr>"
  have 1: "\<not> HasError (Diagnostics (after_decode ?req empty_response))"
    by (simp add: demo_simps)
  have 2: "ValueString (Command (Config ?req)) = ''ls /missing''"
    by (simp add: request_of_def)
  have 3: "Fields ''ls /missing'' = ''ls'' # [''/missing'']"
    by (simp add: Fields_def isSpace_def)
  have 4: "LookPath demo_os ''ls'' = Some ''/bin/ls''"
    by (simp add: demo_os_def)
  have 5: "Run demo_os (sh_cmd ''ls /missing'' (ValueString (WorkingDir (Config ?req)))) = ?res"
    by (simp add: demo_simps)
  have 6: "(\<exists>n. 0 < n \<and> Outcome ?res = Exited n \<and> ''exit status 2'' = ''exit status '' @ itoa n)
      \<or> Outcome ?res = StartFailed ''exit status 2'' \<or> Outcome ?res = WaitFailed ''exit status 2''"
    by (simp add: itoa.simps digit_def)
  have b1: "\<not> HasError (Diagnostics (after_decode ?req' empty_response))"
    by (simp add: demo_simps)
  have b2: "ValueString (Command (Config ?req')) = ''echo hello''"
    by (simp add: request_of_def)
  have b3: "Fields ''echo hello'' = ''echo'' # [''hello'']"
    by (simp add: Fields_def isSpace_def)
  have b4: "LookPath demo_os ''echo'' = Some ''/bin/echo''"
    by (simp add: demo_os_def)
  have b5: "Run demo_os (sh_cmd ''echo hello'' (ValueString (WorkingDir (Config ?req')))) = ?res'"
    by (simp add: demo_simps)
  have b6: "(\<exists>n. 0 < n \<and> Outcome ?res' = Exited n
        \<and> ''chdir /no/such/dir: no such file or directory'' = ''exit status '' @ itoa n)
      \<or> Outcome ?res' = StartFailed ''chdir /no/such/dir: no such file or directory''
      \<or> Outcome ?res' = WaitFailed ''chdir /no/such/dir: no such file or directory''"
    by simp
  show ?thesis
    using 3 4 5 b5 C4_failing_process_reports_execution_failed [OF 1 2 3 4 5 6]
      C4_failing_process_reports_execution_failed [OF b1 b2 b3 b4 b5 b6]
    by (simp add: request_of_def empty_response_def after_decode_def)
qed

subsection \<open>Unresolved executables\<close>

text \<open>
  Claim C5: for a command whose first field does not resolve on the search path, the call
  appends the error \<open>Command Not Found\<close>, whose detail holds the command, and runs no
  process: its only event is the lookup.
\<close>

theorem C5_unresolved_executable_not_found:
  assumes "\<not> HasError (Diagnostics (after_decode req resp))"
    and "ValueString (Command (Config req)) = command"
    and "Fields command = name # rest"
    and "LookPath os name = None"
  shows "Read os req resp =
     ([LookPathCalled name],
      Inr (resp\<lparr>Diagnostics := Diagnostics (after_decode req resp) @
        [NewAttributeErrorDiagnostic ''command'' ''Command Not Found''
           (''The command '' @ [CHR 0x27] @ command @ [CHR 0x27]
              @ '' was not found. Ensure it'' @ [CHR 0x27]
              @ ''s installed and accessible.'')]\<rparr>))
     \<and> spawned (fst (Read os req resp)) = []"
  using Read_not_found [OF assms]
  by (simp add: add_error_fresh [OF assms(1)] after_decode_update not_found_detail_def)

theorem C5_unresolved_executable_not_found_witness:
  "Fields ''nonexistent-binary-xyz'' = [''nonexistent-binary-xyz'']
   \<and> LookPath demo_os ''nonexistent-binary-xyz'' = None
   \<and> Read demo_os (request_of (Value ''nonexistent-binary-xyz'') Null) empty_response =
     ([LookPathCalled ''nonexistent-binary-xyz''],
      Inr \<lparr>Diagnostics =
        [NewAttributeErrorDiagnostic ''command'' ''Command Not Found''
           (''The command '' @ [CHR 0x27] @ ''nonexistent-binary-xyz'' @ [CHR 0x27]
              @ '' was not found. Ensure it'' @ [CHR 0x27]
              @ ''s installed and accessible.'')],
        State = None\<rparr>)
   \<and> spawned (fst (Read demo_os (request_of (Value ''nonexistent-binary-xyz'') Null)
        empty_response)) = []"
proof -
  let ?req = "request_of (Value ''nonexistent-binary-xyz'') Null"
  have 1: "\<not> HasError (Diagnostics (after_decode ?req empty_response))"
    by (simp add: demo_simps)
  have 2: "ValueString (Command (Config ?req)) = ''nonexistent-binary-xyz''"
    by (simp add: request_of_def)
  have 3: "Fields ''nonexistent-binary-xyz'' = ''nonexistent-binary-xyz'' # []"
    by (simp add: Fields_def isSpace_def)
  have 4: "LookPath demo_os ''nonexistent-binary-xyz'' = None"
    by (simp add: demo_os_def)
  show ?thesis
    using 3 4 C5_unresolved_executable_not_found [OF 1 2 3 4]
    by (simp add: request_of_def empty_response_def after_decode_def)
qed

subsection \<open>All or nothing\<close>

text \<open>
  Claim C6: every call ends in one of three ways. It panics and leaves no response; or it
  ends with an error and has not written the state, which is the one the call received
  (no state, when it received none); or it ends with no error and a state in which output,
  error and identifier are all known values (the identifier \<open>-\<close>). The witness runs the
  failing \<open>false\<close> on a response that already holds a state.
\<close>

theorem C6_result_is_all_or_nothing:
  "case snd (Read os req resp) of
     Inl p \<Rightarrow> True
   | Inr r \<Rightarrow>
       (HasError (Diagnostics r) \<and> State r = State resp)
       \<or> (\<not> HasError (Diagnostics r)
           \<and> (\<exists>out err. State r =
                 Some ((Config req)\<lparr>Output := Value out, Error := Value err,
                                    ID := Value ''-''\<rparr>)))"
proof (cases os req resp rule: Read_cases)
  case decode_failed
  then show ?thesis by (simp add: State_after_decode)
next
  case missing
  then show ?thesis
    by (simp add: HasError_add_error State_add_error State_after_decode)
next
  case panicked
  then show ?thesis by simp
next
  case (not_found name rest)
  then show ?thesis
    by (simp add: HasError_add_error State_add_error State_after_decode)
next
  case (run_failed name rest p e)
  then show ?thesis
    by (simp add: HasError_add_error State_add_error State_after_decode)
next
  case (ok name rest p)
  then show ?thesis by auto
qed

theorem C6_result_is_all_or_nothing_witness:
  "snd (Read demo_os (request_of (Value ''echo hello'') Null) empty_response) =
       Inr \<lparr>Diagnostics = [],
            State = Some \<lparr>Command = Value ''echo hello'', WorkingDir = Null,
                          Output = Value (''hello'' @ [CHR 0x0A]), Error = Value [],
                          ID = Value ''-''\<rparr>\<rparr>
   \<and> (case snd (Read demo_os (request_of (Value ''false'') Null)
                \<lparr>Diagnostics = [], State = Some (Config (request_of (Value ''false'') Null))\<rparr>) of
         Inl p \<Rightarrow> True
       | Inr r \<Rightarrow>
           (HasError (Diagnostics r)
              \<and> State r = State \<lparr>Diagnostics = [],
                    State = Some (Config (request_of (Value ''false'') Null))\<rparr>)
           \<or> (\<not> HasError (Diagnostics r)
               \<and> (\<exists>out err. State r =
                     Some ((Config (request_of (Value ''false'') Null))
                             \<lparr>Output := Value out, Error := Value err, ID := Value ''-''\<rparr>))))
   \<and> HasError (Diagnostics (projr (snd (Read demo_os (request_of (Value ''false'') Null)
         \<lparr>Diagnostics = [], State = Some (Config (request_of (Value ''false'') Null))\<rparr>))))"
proof -
  have 2: "snd (Read demo_os (request_of (Value ''echo hello'') Null) empty_response) =
       Inr \<lparr>Diagnostics = [],
            State = Some \<lparr>Command = Value ''echo hello'', WorkingDir = Null,
                          Output = Value (''hello'' @ [CHR 0x0A]), Error = Value [],
                          ID = Value ''-''\<rparr>\<rparr>"
    by (simp add: Read_def Let_def demo_simps CommandContext_def State_Set_def)
  have 3: "HasError (Diagnostics (projr (snd (Read demo_os (request_of (Value ''false'') Null)
         \<lparr>Diagnostics = [], State = Some (Config (request_of (Value ''false'') Null))\<rparr>))))"
    by (simp add: Read_def Let_def demo_simps CommandContext_def AddAttributeError_def
          NewAttributeErrorDiagnostic_def)
  note 4 = C6_result_is_all_or_nothing [where os = demo_os and req = "request_of (Value ''false'') Null"
      and resp = "\<lparr>Diagnostics = [], State = Some (Config (request_of (Value ''false'') Null))\<rparr>"]
  show ?thesis
    by (intro conjI) (rule 2, rule 4, rule 3)
qed

subsection \<open>The shell\<close>

text \<open>
  Claim C7: a command that passes validation and resolution is run exactly once, as
  \<open>/bin/sh\<close> with the arguments \<open>-c\<close> and the whole command text unchanged as one
  argument.
\<close>

theorem C7_shell_receives_command_verbatim:
  assumes "\<not> HasError (Diagnostics (after_decode req resp))"
    and "ValueString (Command (Config req)) = command"
    and "Fields command = name # rest"
    and "LookPath os name = Some p"
  shows "spawned (fst (Read os req resp)) =
           [\<lparr>Path = ''/bin/sh'', Args = [''/bin/sh'', ''-c'', command],
             Dir = ValueString (WorkingDir (Config req))\<rparr>]"
proof (cases "Run_error (Outcome (Run os (sh_cmd command
          (ValueString (WorkingDir (Config req))))))")
  case None
  from Read_ok [OF assms refl None] show ?thesis
    by (simp add: run_events_def sh_cmd_def)
next
  case (Some e)
  from Read_run_failed [OF assms refl Some] show ?thesis
    by (simp add: run_events_def sh_cmd_def)
qed

theorem C7_shell_receives_command_verbatim_witness:
  "\<not> HasError (Diagnostics (after_decode (request_of (Value ''echo  a | wc  -c > out.txt'') Null)
        empty_response))
   \<and> Fields ''echo  a | wc  -c > out.txt'' = [''echo'', ''a'', ''|'', ''wc'', ''-c'', ''>'', ''out.txt'']
   \<and> LookPath demo_os ''echo'' = Some ''/bin/echo''
   \<and> spawned (fst (Read demo_os (request_of (Value ''echo  a | wc  -c > out.txt'') Null)
         empty_response)) =
       [\<lparr>Path = ''/bin/sh'', Args = [''/bin/sh'', ''-c'', ''echo  a | wc  -c > out.txt''],
         Dir = []\<rparr>]"
proof -
  let ?req = "request_of (Value ''echo  a | wc  -c > out.txt'') Null"
  have 1: "\<not> HasError (Diagnostics (after_decode ?req empty_response))"
    by (simp add: demo_simps)
  have 2: "ValueString (Command (Config ?req)) = ''echo  a | wc  -c > out.txt''"
    by (simp add: request_of_def)
  have 3: "Fields ''echo  a | wc  -c > out.txt''
             = ''echo'' # [''a'', ''|'', ''wc'', ''-c'', ''>'', ''out.txt'']"
    by (simp add: Fields_def isSpace_def)
  have 4: "LookPath demo_os ''echo'' = Some ''/bin/echo''"
    by (simp add: demo_os_def)
  show ?thesis
    using 1 3 4 C7_shell_receives_command_verbatim [OF 1 2 3 4]
    by (simp add: request_of_def)
qed

subsection \<open>The working directory\<close>

lemma Read_WorkingDir_cong:
  "ValueString w = ValueString w' \<Longrightarrow>
   fst (Read os (req\<lparr>Config := (Config req)\<lparr>WorkingDir := w\<rparr>\<rparr>) resp)
     = fst (Read os (req\<lparr>Config := (Config req)\<lparr>WorkingDir := w'\<rparr>\<rparr>) resp)
   \<and> forget_dir (snd (Read os (req\<lparr>Config := (Config req)\<lparr>WorkingDir := w\<rparr>\<rparr>) resp))
     = forget_dir (snd (Read os (req\<lparr>Config := (Config req)\<lparr>WorkingDir := w'\<rparr>\<rparr>) resp))"
  by (simp add: Read_def Let_def forget_dir_def State_Set_def
        split: list.split option.split)

lemma spawned_Dir:
  "\<forall>c\<in>set (spawned (fst (Read os req resp))). Dir c = ValueString (WorkingDir (Config req))"
  by (simp add: Read_def Let_def CommandContext_def State_Set_def split: list.split option.split)

text \<open>
  Claim C8, as stated: a request with the empty string as working directory and a request
  with none are indistinguishable. On the sample machine the two successful calls for
  \<open>echo hello\<close> leave different states: the \<open>working_dir\<close> attribute that
  \<open>State.Set\<close> writes is the empty string in one and null in the other.
\<close>

theorem C8_results_differ_in_working_dir:
  "map_option WorkingDir (State (projr (snd
      (Read demo_os (request_of (Value ''echo hello'') (Value [])) empty_response))))
     = Some (Value [])
   \<and> map_option WorkingDir (State (projr (snd
      (Read demo_os (request_of (Value ''echo hello'') Null) empty_response))))
     = Some Null
   \<and> snd (Read demo_os (request_of (Value ''echo hello'') (Value [])) empty_response)
     \<noteq> snd (Read demo_os (request_of (Value ''echo hello'') Null) empty_response)"
  by (simp add: Read_def Let_def demo_simps CommandContext_def State_Set_def)

text \<open>
  Claim C8, amended: a working directory given as the empty string runs the child as an
  absent one does. The two calls make the same events, every process they run has no
  directory set (it inherits the caller's), and they end with the same panic or the same
  diagnostics and the same state but for its \<open>working_dir\<close> attribute, which repeats the
  request's value.
\<close>

theorem C8_empty_working_dir_is_absent_working_dir:
  "fst (Read os (req\<lparr>Config := (Config req)\<lparr>WorkingDir := Value []\<rparr>\<rparr>) resp)
     = fst (Read os (req\<lparr>Config := (Config req)\<lparr>WorkingDir := Null\<rparr>\<rparr>) resp)
   \<and> forget_dir (snd (Read os (req\<lparr>Config := (Config req)\<lparr>WorkingDir := Value []\<rparr>\<rparr>) resp))
     = forget_dir (snd (Read os (req\<lparr>Config := (Config req)\<lparr>WorkingDir := Null\<rparr>\<rparr>) resp))
   \<and> (\<forall>c\<in>set (spawned (fst (Read os (req\<lparr>Config := (Config req)\<lparr>WorkingDir := Value []\<rparr>\<rparr>)
          resp))). Dir c = [])
   \<and> (\<forall>c\<in>set (spawned (fst (Read os (req\<lparr>Config := (Config req)\<lparr>WorkingDir := Null\<rparr>\<rparr>)
          resp))). Dir c = [])"
  using Read_WorkingDir_cong [of "Value []" Null os req resp]
    spawned_Dir [of os "req\<lparr>Config := (Config req)\<lparr>WorkingDir := Value []\<rparr>\<rparr>" resp]
    spawned_Dir [of os "req\<lparr>Config := (Config req)\<lparr>WorkingDir := Null\<rparr>\<rparr>" resp]
  by simp

theorem C8_empty_working_dir_is_absent_working_dir_witness:
  "Read demo_os (request_of (Value ''echo hello'') (Value [])) empty_response =
     ([LookPathCalled ''echo'',
       TraceLogged ''Executing command'' [(''command'', ''echo hello'')],
       ProcessRun \<lparr>Path = ''/bin/sh'', Args = [''/bin/sh'', ''-c'', ''echo hello''], Dir = []\<rparr>,
       TraceLogged ''Executed command''
         [(''command'', ''echo hello''), (''output'', ''hello'' @ [CHR 0x0A]), (''error'', [])]],
      Inr \<lparr>Diagnostics = [],
           State = Some \<lparr>Command = Value ''echo hello'', WorkingDir = Value [],
                         Output = Value (''hello'' @ [CHR 0x0A]), Error = Value [],
                         ID = Value ''-''\<rparr>\<rparr>)
   \<and> fst (Read demo_os (request_of (Value ''echo hello'') Null) empty_response)
       = fst (Read demo_os (request_of (Value ''echo hello'') (Value [])) empty_response)
   \<and> forget_dir (snd (Read demo_os (request_of (Value ''echo hello'') Null) empty_response))
       = forget_dir (snd (Read demo_os (request_of (Value ''echo hello'') (Value []))
           empty_response))"
proof -
  let ?req = "request_of (Value ''echo hello'') Null"
  have 1: "?req\<lparr>Config := (Config ?req)\<lparr>WorkingDir := Value []\<rparr>\<rparr>
             = request_of (Value ''echo hello'') (Value [])"
    by (simp add: request_of_def)
  have 2: "?req\<lparr>Config := (Config ?req)\<lparr>WorkingDir := Null\<rparr>\<rparr> = ?req"
    by (simp add: request_of_def)
  have 3: "Read demo_os (request_of (Value ''echo hello'') (Value [])) empty_response =
     ([LookPathCalled ''echo'',
       TraceLogged ''Executing command'' [(''command'', ''echo hello'')],
       ProcessRun \<lparr>Path = ''/bin/sh'', Args = [''/bin/sh'', ''-c'', ''echo hello''], Dir = []\<rparr>,
       TraceLogged ''Executed command''
         [(''command'', ''echo hello''), (''output'', ''hello'' @ [CHR 0x0A]), (''error'', [])]],
      Inr \<lparr>Diagnostics = [],
           State = Some \<lparr>Command = Value ''echo hello'', WorkingDir = Value [],
                         Output = Value (''hello'' @ [CHR 0x0A]), Error = Value [],
                         ID = Value ''-''\<rparr>\<rparr>)"
    by (simp add: Read_def Let_def demo_simps CommandContext_def State_Set_def)
  have 4: "fst (Read demo_os (request_of (Value ''echo hello'') Null) empty_response)
       = fst (Read demo_os (request_of (Value ''echo hello'') (Value [])) empty_response)
   \<and> forget_dir (snd (Read demo_os (request_of (Value ''echo hello'') Null) empty_response))
       = forget_dir (snd (Read demo_os (request_of (Value ''echo hello'') (Value []))
           empty_response))"
    using C8_empty_working_dir_is_absent_working_dir
      [of demo_os ?req empty_response]
    unfolding 1 2 by simp
  show ?thesis
    using 3 4 by blast
qed

subsection \<open>Standard error does not decide\<close>

text \<open>
  Claim C9: for a validated and resolved command, the call succeeds exactly when the child
  exits with status zero, whatever was written to standard error; on success the state's
  error attribute is the captured standard error, and otherwise the state is untouched.
\<close>

theorem C9_success_is_decided_by_exit_status:
  assumes "\<not> HasError (Diagnostics (after_decode req resp))"
    and "ValueString (Command (Config req)) = command"
    and "Fields command = name # rest"
    and "LookPath os name = Some p"
    and "Run os (sh_cmd command (ValueString (WorkingDir (Config req)))) = res"
  shows "\<exists>r. snd (Read os req resp) = Inr r
           \<and> (\<not> HasError (Diagnostics r)) = (Outcome res = Exited 0)
           \<and> (Outcome res = Exited 0 \<longrightarrow>
                 map_option Error (State r) = Some (Value (Stderr res)))
           \<and> (Outcome res \<noteq> Exited 0 \<longrightarrow> State r = State resp)"
proof (cases "Run_error (Outcome res)")
  case None
  then have "Outcome res = Exited 0"
    by (simp add: Run_error_None_iff)
  with Read_ok [OF assms None] assms(1) show ?thesis
    by simp
next
  case (Some e)
  then have "Outcome res \<noteq> Exited 0"
    by auto
  with Read_run_failed [OF assms Some] show ?thesis
    by (simp add: HasError_add_error State_add_error State_after_decode)
qed

theorem C9_success_is_decided_by_exit_status_witness:
  "\<not> HasError (Diagnostics (after_decode (request_of (Value ''echo oops >&2'') Null)
        empty_response))
   \<and> Fields ''echo oops >&2'' = [''echo'', ''oops'', ''>&2'']
   \<and> LookPath demo_os ''echo'' = Some ''/bin/echo''
   \<and> Run demo_os (sh_cmd ''echo oops >&2'' []) =
        \<lparr>Stdout = [], Stderr = ''oops'' @ [CHR 0x0A], Outcome = Exited 0\<rparr>
   \<and> (\<exists>r. snd (Read demo_os (request_of (Value ''echo oops >&2'') Null) empty_response) = Inr r
          \<and> \<not> HasError (Diagnostics r)
          \<and> map_option Error (State r) = Some (Value (''oops'' @ [CHR 0x0A])))"
proof -
  let ?req = "request_of (Value ''echo oops >&2'') Null"
  let ?res = "\<lparr>Stdout = [], Stderr = ''oops'' @ [CHR 0x0A], Outcome = Exited 0\<rparr>"
  have 1: "\<not> HasError (Diagnostics (after_decode ?req empty_response))"
    by (simp add: demo_simps)
  have 2: "ValueString (Command (Config ?req)) = ''echo oops >&2''"
    by (simp add: request_of_def)
  have 3: "Fields ''echo oops >&2'' = ''echo'' # [''oops'', ''>&2'']"
    by (simp add: Fields_def isSpace_def)
  have 4: "LookPath demo_os ''echo'' = Some ''/bin/echo''"
    by (simp add: demo_os_def)
  have 5: "Run demo_os (sh_cmd ''echo oops >&2'' (ValueString (WorkingDir (Config ?req)))) = ?res"
    by (simp add: demo_simps)
  show ?thesis
    using 1 3 4 5 C9_success_is_decided_by_exit_status [OF 1 2 3 4 5]
    by (simp add: request_of_def)
qed

subsection \<open>The frame of a successful call\<close>

text \<open>
  Claim C10: a call that returns without an error has set a state whose \<open>command\<close> and
  \<open>working_dir\<close> are those of the request; the state differs from the decoded
  configuration in output, error and identifier only.
\<close>

theorem C10_success_keeps_request_attributes:
  assumes "snd (Read os req resp) = Inr r"
    and "\<not> HasError (Diagnostics r)"
  shows "\<exists>s. State r = Some s
           \<and> Command s = Command (Config req)
           \<and> WorkingDir s = WorkingDir (Config req)
           \<and> s = (Config req)\<lparr>Output := Output s, Error := Error s, ID := ID s\<rparr>"
proof (cases os req resp rule: Read_cases)
  case decode_failed
  then show ?thesis using assms by simp
next
  case missing
  then show ?thesis using assms HasError_add_error by auto
next
  case panicked
  then show ?thesis using assms by simp
next
  case (not_found name rest)
  then show ?thesis using assms HasError_add_error by auto
next
  case (run_failed name rest p e)
  then show ?thesis using assms HasError_add_error by auto
next
  case (ok name rest p)
  then show ?thesis using assms by auto
qed

theorem C10_success_keeps_request_attributes_witness:
  "snd (Read demo_os (request_of (Value ''echo hello'') (Value ''/tmp'')) empty_response) =
     Inr \<lparr>Diagnostics = [],
          State = Some \<lparr>Command = Value ''echo hello'', WorkingDir = Value ''/tmp'',
                        Output = Value (''hello'' @ [CHR 0x0A]), Error = Value [],
                        ID = Value ''-''\<rparr>\<rparr>
   \<and> \<not> HasError []
   \<and> (\<exists>s. State \<lparr>Diagnostics = [],
            State = Some \<lparr>Command = Value ''echo hello'', WorkingDir = Value ''/tmp'',
                          Output = Value (''hello'' @ [CHR 0x0A]), Error = Value [],
                          ID = Value ''-''\<rparr>\<rparr> = Some s
          \<and> Command s = Value ''echo hello'' \<and> WorkingDir s = Value ''/tmp'')"
proof -
  let ?req = "request_of (Value ''echo hello'') (Value ''/tmp'')"
  let ?r = "\<lparr>Diagnostics = [],
          State = Some \<lparr>Command = Value ''echo hello'', WorkingDir = Value ''/tmp'',
                        Output = Value (''hello'' @ [CHR 0x0A]), Error = Value [],
                        ID = Value ''-''\<rparr>\<rparr>"
  have 1: "snd (Read demo_os ?req empty_response) = Inr ?r"
    by (simp add: Read_def Let_def demo_simps CommandContext_def State_Set_def)
  have 2: "\<not> HasError (Diagnostics ?r)"
    by (simp add: HasError_def)
  have 3: "\<not> HasError []"
    by (simp add: HasError_def)
  have 4: "Command (Config ?req) = Value ''echo hello''"
    "WorkingDir (Config ?req) = Value ''/tmp''"
    by (simp_all add: request_of_def)
  from C10_success_keeps_request_attributes [OF 1 2]
  obtain s where "State ?r = Some s" and "Command s = Command (Config ?req)"
    and "WorkingDir s = WorkingDir (Config ?req)"
    by blast
  then have "\<exists>s. State ?r = Some s \<and> Command s = Value ''echo hello''
      \<and> WorkingDir s = Value ''/tmp''"
    unfolding 4 by blast
  with 1 3 show ?thesis
    by blast
qed

end
